theory Spec2Isabelle
  imports Complex_Main
begin

section \<open>Python values and library functions used by the program\<close>

text \<open>
  The program is Python. Its integers are unbounded (\<open>int\<close>), a \<open>str\<close> is modelled as
  a \<open>string\<close> (one \<open>char\<close> per character of the Python string), and a raised exception
  is a value of \<open>py_error\<close>.
\<close>

datatype py_error =
    IndexError
  | KeyError
  | TypeError
  | ValueError
  | AttributeError
  | JSONDecodeError
  | RequestException
  | SystemExit

text \<open>How a call ends: it returns, or an exception leaves it.\<close>

datatype status = Returned | Raised py_error

text \<open>
  \<open>xs[i]\<close>, \<open>xs.pop(i)\<close> and \<open>xs.insert(i, x)\<close> of a Python list: a negative index
  counts from the end; reading and popping out of range raise \<open>IndexError\<close>, inserting
  out of range inserts at the nearer end.
\<close>

definition py_norm_index :: "nat \<Rightarrow> int \<Rightarrow> int" where
  "py_norm_index n i = (if i < 0 then i + int n else i)"

definition py_getitem :: "'a list \<Rightarrow> int \<Rightarrow> py_error + 'a" where
  "py_getitem xs i =
     (let j = py_norm_index (length xs) i
      in if j < 0 \<or> int (length xs) \<le> j then Inl IndexError else Inr (xs ! nat j))"

definition py_pop :: "'a list \<Rightarrow> int \<Rightarrow> py_error + 'a list" where
  "py_pop xs i =
     (let j = py_norm_index (length xs) i
      in if j < 0 \<or> int (length xs) \<le> j then Inl IndexError
         else Inr (take (nat j) xs @ drop (Suc (nat j)) xs))"

definition py_insert :: "'a list \<Rightarrow> int \<Rightarrow> 'a \<Rightarrow> 'a list" where
  "py_insert xs i x =
     (let j = py_norm_index (length xs) i;
          k = (if j < 0 then 0 else if int (length xs) < j then length xs else nat j)
      in take k xs @ x # drop k xs)"

text \<open>\<open>list(s)\<close> of a string: its characters, each a string of length one.\<close>

definition py_list :: "string \<Rightarrow> string list" where
  "py_list s = map (\<lambda>c. [c]) s"

text \<open>\<open>sep.join(xs)\<close>.\<close>

fun py_join :: "string \<Rightarrow> string list \<Rightarrow> string" where
  "py_join sep [] = []"
| "py_join sep [x] = x"
| "py_join sep (x # y # ys) = x @ sep @ py_join sep (y # ys)"

text \<open>\<open>s.startswith(p)\<close>.\<close>

definition startswith :: "string \<Rightarrow> string \<Rightarrow> bool" where
  "startswith s p = (take (length p) s = p)"

text \<open>
  \<open>s.split(" ")\<close> with an explicit separator: one piece per separator plus one, empty
  pieces kept, so the result is never empty.
\<close>

fun py_split :: "char \<Rightarrow> string \<Rightarrow> string list" where
  "py_split sep [] = [[]]"
| "py_split sep (c # cs) =
     (if c = sep then [] # py_split sep cs
      else (case py_split sep cs of
              [] \<Rightarrow> [[c]]
            | w # ws \<Rightarrow> (c # w) # ws))"

text \<open>
  The characters \<open>str.strip()\<close> removes and the regular expression class \<open>\s\<close>
  matches (the pattern is a \<open>str\<close> pattern), among the code points 0 to 255 that a
  character of this theory can hold: space, tab, line feed, vertical tab, form feed,
  carriage return, the four separators 0x1C to 0x1F, next line 0x85 and the no-break
  space 0xA0.
\<close>

definition py_isspace :: "char \<Rightarrow> bool" where
  "py_isspace c =
     (c \<in> set [CHR 0x20, CHR 0x09, CHR 0x0A, CHR 0x0B, CHR 0x0C, CHR 0x0D,
               CHR 0x1C, CHR 0x1D, CHR 0x1E, CHR 0x1F, CHR 0x85, CHR 0xA0])"

definition py_strip :: "string \<Rightarrow> string" where
  "py_strip s = rev (dropWhile py_isspace (rev (dropWhile py_isspace s)))"

definition removeprefix :: "string \<Rightarrow> string \<Rightarrow> string" where
  "removeprefix s p = (if startswith s p then drop (length p) s else s)"

section \<open>The terminal session (server.py, class SSHServer)\<close>

text \<open>
  What a call does to the outside: a command sent upstream through the relay
  (\<open>self.ws.send\<close>), bytes written to the client's channel, a line of the server log
  (\<open>log(...)\<close>, without its time stamp), a file rewritten in full, the external restart
  request, the steps of \<open>close()\<close>, the roster query of the relay, and a call of
  the render hook \<open>mc_callback\<close> of a subscriber (named by a number) with a text.
\<close>

datatype effect =
    WsSend string
  | ClientSend string
  | ServerLog string
  | WriteFile string string
  | Popen "string list"
  | ChannelClose
  | JoinInputThread
  | Unsubscribe
  | HttpGet
  | McCallback nat string

text \<open>
  The fields of \<open>SSHServer\<close> the line editor works on. \<open>buffer\<close> is a list of strings:
  one element per key event (a character, or a whole unrecognised escape sequence).
  The field \<open>filter\<close> of the source is \<open>filter_str\<close> here.
\<close>

record session =
  buffer :: "string list"
  history :: "string list"
  position :: int
  selected :: int
  selected_suffix :: int
  filter_str :: string
  closing :: bool

definition buffer_str :: "session \<Rightarrow> string" where
  "buffer_str s = concat (buffer s)"

text \<open>
  \<open>add_history\<close>: the command is inserted at index 0 when the history has exactly one
  entry or its entry at index 1 differs from the command; then the history from index 1
  on is written to history.txt. Reading index 1 of an empty history raises.
\<close>

definition add_history :: "string \<Rightarrow> session \<Rightarrow> status \<times> session \<times> effect list" where
  "add_history cmd s =
     (case (if length (history s) = 1 then Inr True
            else (case py_getitem (history s) 1 of
                    Inl e \<Rightarrow> Inl e
                  | Inr h1 \<Rightarrow> Inr (h1 \<noteq> cmd))) of
        Inl e \<Rightarrow> (Raised e, s, [])
      | Inr ins \<Rightarrow>
          (let s' = (if ins then s\<lparr>history := py_insert (history s) 0 cmd\<rparr> else s)
           in (Returned, s', [WriteFile ''history.txt'' (py_join [CHR 0x0A] (drop 1 (history s')))])))"

text \<open>
  What the session reads from outside the line editor while it handles one key event,
  held fixed during that event: the outcome of \<open>self.ws.players\<close> (the display names
  of the roster, or the exception the roster access raises), the global list
  \<open>KNOWN_COMMANDS\<close>, whether the session is still in the relay's \<open>callbacks\<close>, the
  text of \<open>self.channel.getpeername()\<close>, and \<open>self.height\<close>, which the transport
  sets on a terminal request.
\<close>

record env =
  players :: "py_error + string list"
  known_commands :: "string list"
  subscribed :: bool
  peername :: string
  height :: int

definition is_command_complete :: "env \<Rightarrow> session \<Rightarrow> bool" where
  "is_command_complete e s =
     (removeprefix (py_strip (buffer_str s)) ''/'' \<in> set (known_commands e))"

definition player_suggestions :: "env \<Rightarrow> session \<Rightarrow> py_error + string list" where
  "player_suggestions e s =
     (let words = py_split CHR '' '' (filter_str s)
      in if length (filter_str s) = 0 \<or> length (hd words) = 0 then Inr []
         else if length words = 1 \<and> is_command_complete e s then players e
         else (case players e of
                 Inl err \<Rightarrow> Inl err
               | Inr ps \<Rightarrow>
                   Inr (map (\<lambda>player. buffer_str s @ drop (length (last words)) player)
                          (filter (\<lambda>player. startswith player (last words)) ps))))"

text \<open>
  The second comprehension of \<open>filtered_history\<close>: entry \<open>i\<close> of \<open>filtered\<close> is kept
  when \<open>i\<close> is 0 or the entry differs from entry \<open>i - 1\<close>.
\<close>

definition dedup_adjacent :: "string list \<Rightarrow> string list" where
  "dedup_adjacent filtered =
     map (\<lambda>i. filtered ! i)
       (filter (\<lambda>i. i = 0 \<or> filtered ! i \<noteq> filtered ! (i - 1)) [0 ..< length filtered])"

definition filtered_history :: "env \<Rightarrow> session \<Rightarrow> py_error + string list" where
  "filtered_history e s =
     (case player_suggestions e s of
        Inl err \<Rightarrow> Inl err
      | Inr ps \<Rightarrow>
          Inr (filter_str s #
               dedup_adjacent
                 (filter (\<lambda>cmd. startswith cmd (filter_str s))
                    (ps @ history s @ known_commands e))))"

text \<open>
  The accessors \<open>selection\<close> and \<open>suffix_selection\<close>, as the class finally defines them
  (the later of the two definitions of each name). Each returns the selected entry
  and the session, whose index it may have reset to 0.
\<close>

definition selection :: "env \<Rightarrow> session \<Rightarrow> py_error + (string \<times> session)" where
  "selection e s =
     (case filtered_history e s of
        Inl err \<Rightarrow> Inl err
      | Inr fh \<Rightarrow>
          if length fh = 0 then Inr (filter_str s, s)
          else (let s' = (if selected s \<ge> int (length fh) then s\<lparr>selected := 0\<rparr> else s)
                in (case py_getitem fh (selected s') of
                      Inl err \<Rightarrow> Inl err
                    | Inr c \<Rightarrow> Inr (c, s'))))"

definition suffix_selection :: "env \<Rightarrow> session \<Rightarrow> py_error + (string \<times> session)" where
  "suffix_selection e s =
     (case filtered_history e s of
        Inl err \<Rightarrow> Inl err
      | Inr fh \<Rightarrow>
          if length (drop 1 fh) = 0 then Inr ([], s)
          else (let s' = (if selected_suffix s \<ge> int (length fh)
                          then s\<lparr>selected_suffix := 0\<rparr> else s)
                in (case py_getitem (drop 1 fh) (selected_suffix s') of
                      Inl err \<Rightarrow> Inl err
                    | Inr c \<Rightarrow> Inr (c, s'))))"

text \<open>
  The first definition of \<open>suffix_selection\<close> in the class body, which the later one
  replaces: it compares the index with the length of the list it indexes.
\<close>

definition suffix_selection_first :: "env \<Rightarrow> session \<Rightarrow> py_error + (string \<times> session)" where
  "suffix_selection_first e s =
     (case filtered_history e s of
        Inl err \<Rightarrow> Inl err
      | Inr fh \<Rightarrow>
          if length (drop 1 fh) = 0 then Inr ([], s)
          else (let s' = (if selected_suffix s \<ge> int (length (drop 1 fh))
                          then s\<lparr>selected_suffix := 0\<rparr> else s)
                in (case py_getitem (drop 1 fh) (selected_suffix s') of
                      Inl err \<Rightarrow> Inl err
                    | Inr c \<Rightarrow> Inr (c, s'))))"

definition suffix :: "env \<Rightarrow> session \<Rightarrow> py_error + (string \<times> session)" where
  "suffix e s =
     (if length (filter_str s) = 0 then Inr ([], s)
      else (case suffix_selection e s of
              Inl err \<Rightarrow> Inl err
            | Inr (c, s') \<Rightarrow> Inr (drop (length (filter_str s)) c, s')))"

text \<open>Up arrow and down arrow.\<close>

definition previous_command :: "env \<Rightarrow> session \<Rightarrow> status \<times> session \<times> effect list" where
  "previous_command e s =
     (if filter_str s = [] then
        (case filtered_history e s of
           Inl err \<Rightarrow> (Raised err, s, [])
         | Inr fh \<Rightarrow>
             (let s1 = s\<lparr>selected := min (int (length fh) - 1) (selected s + 1)\<rparr>
              in (case py_getitem fh (selected s1) of
                    Inl err \<Rightarrow> (Raised err, s1, [])
                  | Inr c \<Rightarrow>
                      (Returned,
                       s1\<lparr>buffer := py_list c, position := int (length (py_list c))\<rparr>, []))))
      else
        (case filtered_history e s of
           Inl err \<Rightarrow> (Raised err, s, [])
         | Inr fh \<Rightarrow>
             (Returned,
              s\<lparr>selected_suffix := min (int (length fh) - 1) (selected_suffix s + 1)\<rparr>, [])))"

definition next_command :: "env \<Rightarrow> session \<Rightarrow> status \<times> session \<times> effect list" where
  "next_command e s =
     (if selected s = 0 \<and> filter_str s = [] then
        (Returned, s\<lparr>buffer := [], position := 0\<rparr>, [])
      else if filter_str s = [] then
        (let s1 = s\<lparr>selected := max 0 (selected s - 1)\<rparr>
         in (case filtered_history e s1 of
               Inl err \<Rightarrow> (Raised err, s1, [])
             | Inr fh \<Rightarrow>
                 (case py_getitem fh (selected s1) of
                    Inl err \<Rightarrow> (Raised err, s1, [])
                  | Inr c \<Rightarrow>
                      (Returned,
                       s1\<lparr>buffer := py_list c, position := int (length (py_list c))\<rparr>, []))))
      else
        (Returned, s\<lparr>selected_suffix := max 0 (selected_suffix s - 1)\<rparr>, []))"

text \<open>Delete-backward: pop the element at \<open>position - 1\<close>, then move the cursor back.\<close>

definition backspace :: "session \<Rightarrow> status \<times> session \<times> effect list" where
  "backspace s =
     (if length (buffer s) > 0 then
        (case py_pop (buffer s) (position s - 1) of
           Inl err \<Rightarrow> (Raised err, s, [])
         | Inr b \<Rightarrow> (Returned, s\<lparr>buffer := b, position := position s - 1\<rparr>, []))
      else (Returned, s, []))"

definition update_filter :: "session \<Rightarrow> session" where
  "update_filter s = s\<lparr>filter_str := buffer_str s\<rparr>"

text \<open>
  Sequencing of two steps: when the first raises, the second does not run; the
  effects of both are kept in order.
\<close>

definition and_then ::
  "status \<times> session \<times> effect list \<Rightarrow> (session \<Rightarrow> status \<times> session \<times> effect list)
   \<Rightarrow> status \<times> session \<times> effect list" where
  "and_then r f =
     (case r of
        (Raised err, s, fx) \<Rightarrow> (Raised err, s, fx)
      | (Returned, s, fx) \<Rightarrow> (case f s of (st, s', fx') \<Rightarrow> (st, s', fx @ fx')))"

text \<open>The decimal text of an integer, as an f-string renders it.\<close>

fun digits_of :: "nat \<Rightarrow> string" where
  "digits_of n =
     (if n < 10 then [char_of (48 + n)]
      else digits_of (n div 10) @ [char_of (48 + n mod 10)])"

declare digits_of.simps [simp del]

definition py_str_int :: "int \<Rightarrow> string" where
  "py_str_int i = (if i < 0 then CHR ''-'' # digits_of (nat (- i)) else digits_of (nat i))"

definition esc :: char where
  "esc = CHR 0x1B"

definition is_valid_command :: "env \<Rightarrow> string \<Rightarrow> bool" where
  "is_valid_command e command = (command \<in> set (known_commands e))"

text \<open>
  \<open>buffer_formatted\<close>: the buffer with its first word coloured. In the third test the
  source reads \<open>parts[0][0]\<close> only after \<open>is_valid_command(parts[0][1:])\<close> held and
  \<open>is_valid_command(parts[0])\<close> failed, which excludes an empty first word, so the
  read never raises.
\<close>

definition buffer_formatted :: "env \<Rightarrow> session \<Rightarrow> string" where
  "buffer_formatted e s =
     (if length (buffer s) = 0 then []
      else
        (let parts = py_split CHR '' '' (concat (buffer s));
             p0 = hd parts
         in py_join '' ''
              (if length p0 > 0 \<and> py_strip [hd p0] = ''!'' then
                 (let parts1 = parts[0 := esc # ''[1;36m'' @ p0]
                  in parts1[length parts1 - 1 := last parts1 @ esc # ''[0m''])
               else if py_strip p0 \<in> set [''exit'', ''clear'', ''reload'', ''cls'', ''reset''] then
                 parts[0 := esc # ''[1;34m'' @ p0 @ esc # ''[0m'']
               else if is_valid_command e p0
                       \<or> (is_valid_command e (drop 1 p0) \<and> take 1 p0 = ''!'') then
                 parts[0 := esc # ''[1;32m'' @ p0 @ esc # ''[0m'']
               else
                 parts[0 := esc # ''[1;31m'' @ p0 @ esc # ''[0m''])))"

text \<open>
  \<open>redraw_buffer\<close> (the later definition): five writes to the client; the fourth
  needs \<open>suffix\<close>, which can raise after the first three were sent.
\<close>

definition redraw_buffer :: "env \<Rightarrow> session \<Rightarrow> status \<times> session \<times> effect list" where
  "redraw_buffer e s =
     (let fx =
            [ClientSend (esc # ''[2K''),
             ClientSend (esc # ''['' @ py_str_int (height e) @ '';1H> '' @ buffer_formatted e s),
             ClientSend (esc # ''['' @ py_str_int (height e) @ '';''
                           @ py_str_int (int (length (buffer_str s)) + 3) @ ''H'')]
      in (case suffix e s of
            Inl err \<Rightarrow> (Raised err, s, fx)
          | Inr (suf, s') \<Rightarrow>
              (Returned, s',
               fx @ [ClientSend (esc # ''[30m'' @ suf @ esc # ''[0m''),
                     ClientSend (esc # ''['' @ py_str_int (height e) @ '';''
                                   @ py_str_int (position s' + 3) @ ''H'')])))"

definition accept_completion :: "env \<Rightarrow> session \<Rightarrow> status \<times> session \<times> effect list" where
  "accept_completion e s =
     (case suffix_selection e s of
        Inl err \<Rightarrow> (Raised err, s, [])
      | Inr (c, s1) \<Rightarrow>
          (let s2 = s1\<lparr>buffer := py_list c\<rparr>;
               s3 = s2\<lparr>filter_str := buffer_str s2\<rparr>;
               s4 = s3\<lparr>position := int (length (buffer s3))\<rparr>
           in redraw_buffer e s4))"

text \<open>
  \<open>close\<close>: the channel is closed, the flag set, the input thread joined (a
  \<open>RuntimeError\<close> of the join is caught), the session removed from the relay's
  \<open>callbacks\<close> (\<open>list.remove\<close> raises \<open>ValueError\<close> when it is no longer there), and
  the closing logged.
\<close>

definition close :: "env \<Rightarrow> session \<Rightarrow> status \<times> session \<times> effect list" where
  "close e s =
     (let s1 = s\<lparr>closing := True\<rparr>
      in if subscribed e then
           (Returned, s1,
            [ChannelClose, JoinInputThread, Unsubscribe,
             ServerLog (''[*] Closed connection to '' @ peername e)])
         else (Raised ValueError, s1, [ChannelClose, JoinInputThread, Unsubscribe]))"

text \<open>
  The \<open>if\<close>/\<open>elif\<close> chain of \<open>send_command\<close>, on the buffer as it stands after the
  \<open>reload\<close> rewrite. \<open>exit(0)\<close> raises \<open>SystemExit\<close>; \<open>strip()[0]\<close> raises
  \<open>IndexError\<close> when the buffer is only white space.
\<close>

definition dispatch_command :: "env \<Rightarrow> session \<Rightarrow> status \<times> session \<times> effect list" where
  "dispatch_command e s =
     (let b = concat (buffer s)
      in if b = ''exit'' then
           and_then (close e s) (\<lambda>s1. (Raised SystemExit, s1, []))
         else if b \<in> set [''clear'', ''cls''] then
           (Returned, s\<lparr>buffer := [], position := 0\<rparr>,
            [ClientSend (esc # ''[2J''), WriteFile ''log.txt'' [], ServerLog ''[*] Cleared log''])
         else if b = ''reset'' then
           (Returned, s,
            [Popen [''sudo'', ''systemctl'', ''restart'', ''mcssh.service''],
             ServerLog ''[*] Restarting server''])
         else
           (case py_getitem (py_strip b) 0 of
              Inl err \<Rightarrow> (Raised err, s, [])
            | Inr c \<Rightarrow>
                if c = CHR ''!'' then
                  (Returned, s,
                   [WsSend (''/broadcast '' @ concat (drop 1 (buffer s))),
                    ServerLog (''[*] Sent broadcast: '' @ concat (drop 1 (buffer s)))])
                else
                  (Returned, s, [WsSend b, ServerLog (''[*] Sent command: '' @ b)])))"

text \<open>
  \<open>send_command\<close>: nothing at all on an empty buffer; otherwise the command is added
  to the history, \<open>reload\<close> is rewritten to \<open>reload confirm\<close>, the chain above runs on
  the result, and the buffer, the cursor and both indices are reset.
\<close>

definition send_command :: "env \<Rightarrow> session \<Rightarrow> status \<times> session \<times> effect list" where
  "send_command e s =
     (if length (buffer s) = 0 then (Returned, s, [])
      else
        and_then (add_history (concat (buffer s)) s)
          (\<lambda>s1. and_then
                   (dispatch_command e
                      (if concat (buffer s1) = ''reload''
                       then s1\<lparr>buffer := py_list ''reload confirm''\<rparr> else s1))
                   (\<lambda>s2. (Returned,
                           s2\<lparr>buffer := [], position := 0, selected := 0, selected_suffix := 0\<rparr>,
                           [ClientSend (esc # ''[2K'')]))))"

text \<open>
  The commands a call has sent upstream, in order: the arguments of its calls of
  \<open>self.ws.send\<close>.
\<close>

definition sent_upstream :: "effect list \<Rightarrow> string list" where
  "sent_upstream fx = concat (map (\<lambda>x. case x of WsSend c \<Rightarrow> [c] | _ \<Rightarrow> []) fx)"

text \<open>
  One turn of the loop of \<open>input_handler\<close>: \<open>key_event\<close> is the \<open>match\<close> statement on
  the bytes of one key event (a single ASCII byte, or an escape sequence up to its
  terminator), and \<open>input_handler_step\<close> redraws after it.
\<close>

definition key_event :: "env \<Rightarrow> string \<Rightarrow> session \<Rightarrow> status \<times> session \<times> effect list" where
  "key_event e data s =
     (if data = [CHR 0x0D] then
        and_then (send_command e s) (\<lambda>s1. (Returned, update_filter s1, []))
      else if data = [CHR 0x7F] then
        and_then (backspace s) (\<lambda>s1. (Returned, update_filter s1, []))
      else if data = [CHR 0x03] then
        (if length (buffer s) > 0 then (Returned, s\<lparr>buffer := [], position := 0\<rparr>, [])
         else and_then (close e s) (\<lambda>s1. (Raised SystemExit, s1, [])))
      else if data = esc # ''[A'' then previous_command e s
      else if data = esc # ''[B'' then next_command e s
      else if data = esc # ''[D'' then
        (Returned, (if position s > 0 then s\<lparr>position := position s - 1\<rparr> else s), [])
      else if data = esc # ''[C'' then
        (if position s = int (length (buffer s)) then
           and_then (accept_completion e s) (\<lambda>s1. (Returned, update_filter s1, []))
         else if position s < int (length (buffer s)) then
           (Returned, s\<lparr>position := position s + 1\<rparr>, [])
         else (Returned, s, []))
      else if data = [CHR 0x09] then
        and_then (accept_completion e s) (\<lambda>s1. (Returned, update_filter s1, []))
      else if data = esc # ''[3~'' then
        (if position s < int (length (buffer s)) then
           (case py_pop (buffer s) (position s) of
              Inl err \<Rightarrow> (Raised err, s, [])
            | Inr b \<Rightarrow> (Returned, update_filter (s\<lparr>buffer := b\<rparr>), []))
         else (Returned, update_filter s, []))
      else
        (Returned,
         update_filter
           (s\<lparr>buffer := py_insert (buffer s) (position s) data, position := position s + 1\<rparr>),
         []))"

definition input_handler_step ::
  "env \<Rightarrow> string \<Rightarrow> session \<Rightarrow> status \<times> session \<times> effect list" where
  "input_handler_step e data s = and_then (key_event e data s) (redraw_buffer e)"

text \<open>The invariant of the line editor: the cursor is a position within the buffer.\<close>

definition cursor_in_buffer :: "session \<Rightarrow> bool" where
  "cursor_in_buffer s = (0 \<le> position s \<and> position s \<le> int (length (buffer s)))"

section \<open>The console relay (mc.py, class MinecraftSocket)\<close>

text \<open>
  A parsed JSON value. Numbers are integers (a time stamp is a count of
  milliseconds); numbers with a fraction are outside the model.
\<close>

datatype json =
    JNull
  | JBool bool
  | JInt int
  | JStr string
  | JArr "json list"
  | JObj "(string \<times> json) list"

text \<open>\<open>d[key]\<close> on a parsed value: only an object can be indexed by a string.\<close>

definition py_getkey :: "json \<Rightarrow> string \<Rightarrow> py_error + json" where
  "py_getkey d k =
     (case d of
        JObj kvs \<Rightarrow> (case map_of kvs k of None \<Rightarrow> Inl KeyError | Some v \<Rightarrow> Inr v)
      | _ \<Rightarrow> Inl TypeError)"

text \<open>
  The value as a number, where Python compares it with an integer or divides it:
  \<open>bool\<close> is a subtype of \<open>int\<close>; any other kind of value raises \<open>TypeError\<close> there.
\<close>

definition json_num :: "json \<Rightarrow> int option" where
  "json_num v =
     (case v of
        JInt i \<Rightarrow> Some i
      | JBool b \<Rightarrow> Some (if b then 1 else 0)
      | _ \<Rightarrow> None)"

text \<open>
  The library calls whose results the relay only passes on: \<open>json.loads\<close>,
  \<open>json.dump\<close> of the stored list, the local-time rendering
  \<open>datetime.fromtimestamp(t / 1000).strftime(...)\<close> of a millisecond count, \<open>str\<close> of
  a value inside an f-string, and \<open>str\<close> of a caught exception.
\<close>

record lib =
  json_loads :: "string \<Rightarrow> py_error + json"
  json_dump :: "string list \<Rightarrow> string"
  format_time :: "int \<Rightarrow> py_error + string"
  py_str :: "json \<Rightarrow> string"
  exc_text :: "py_error \<Rightarrow> string"

text \<open>
  The state of the relay: its attributes and the two module globals. \<open>cached_players\<close>
  is the attribute \<open>_players\<close>, which the class only annotates: it is \<open>None\<close> until the
  first assignment, and reading it before raises \<open>AttributeError\<close>. A subscriber is
  named by a number. Time is in seconds.
\<close>

record relay =
  latest_message :: int
  callbacks :: "nat list"
  cached_players :: "json list option"
  players_last_updated :: real
  KNOWN_MESSAGES :: "string list"
  KNOWN_COMMANDS :: "string list"

text \<open>
  How the roster query \<open>requests.get\<close> with \<open>raise_for_status\<close> ends: a
  \<open>RequestException\<close> with its text, or a response whose body is the roster.
\<close>

datatype query_result = RequestFailed string | Roster "json list"

definition get_online_players ::
  "real \<Rightarrow> query_result \<Rightarrow> relay \<Rightarrow> (py_error + json list) \<times> relay \<times> effect list" where
  "get_online_players now response r =
     (if now - players_last_updated r < 10 then
        (case cached_players r of
           None \<Rightarrow> (Inl AttributeError, r, [])
         | Some ps \<Rightarrow> (Inr ps, r, []))
      else
        (let r1 = r\<lparr>players_last_updated := now\<rparr>
         in (case response of
               RequestFailed msg \<Rightarrow>
                 (Inr [], r1, [HttpGet, ServerLog (''Error getting online players: '' @ msg)])
             | Roster ps \<Rightarrow> (Inr ps, r1\<lparr>cached_players := Some ps\<rparr>, [HttpGet]))))"



definition format_message :: "lib \<Rightarrow> json \<Rightarrow> py_error + string" where
  "format_message L message =
     (case py_getkey message ''timestampMillis'' of
        Inl err \<Rightarrow> Inl err
      | Inr tv \<Rightarrow>
          (case json_num tv of
             None \<Rightarrow> Inl TypeError
           | Some t \<Rightarrow>
               (case format_time L t of
                  Inl err \<Rightarrow> Inl err
                | Inr time_formatted \<Rightarrow>
                    (case py_getkey message ''level'' of
                       Inl err \<Rightarrow> Inl err
                     | Inr level \<Rightarrow>
                         (case py_getkey message ''message'' of
                            Inl err \<Rightarrow> Inl err
                          | Inr text \<Rightarrow>
                              Inr (time_formatted @ '' '' @ py_str L level @ '' : ''
                                   @ py_str L text))))))"

text \<open>
  \<open>re.match\<close> of the pattern \<open>^\/([^\s]+):\<close>: a slash, then the longest non-empty run
  of characters that are not white space which a colon follows. The colon is itself
  not white space, so it is the last colon, not at the start, of the run that follows
  the slash. The result is group 1.
\<close>

definition match_command :: "string \<Rightarrow> string option" where
  "match_command text =
     (case text of
        [] \<Rightarrow> None
      | c # rest \<Rightarrow>
          if c \<noteq> CHR ''/'' then None
          else
            (let run = takeWhile (\<lambda>x. \<not> py_isspace x) rest;
                 ks = filter (\<lambda>k. run ! k = CHR '':'') [1 ..< length run]
             in if ks = [] then None else Some (take (last ks) run)))"

text \<open>
  \<open>on_message\<close> up to the formatting of the message (the part before the loop over
  the subscribers): the status, the relay, the effects, and the formatted text that
  the loop is to deliver, if the message got that far.
\<close>

definition on_message_ingest ::
  "lib \<Rightarrow> string \<Rightarrow> relay \<Rightarrow> status \<times> relay \<times> effect list \<times> string option" where
  "on_message_ingest L message r =
     (case json_loads L message of
        Inl err \<Rightarrow> (Raised err, r, [], None)
      | Inr json_message \<Rightarrow>
          (case py_getkey json_message ''timestampMillis'' of
             Inl err \<Rightarrow> (Raised err, r, [], None)
           | Inr tv \<Rightarrow>
               (case json_num tv of
                  None \<Rightarrow> (Raised TypeError, r, [], None)
                | Some t \<Rightarrow>
                    if t < latest_message r then (Returned, r, [], None)
                    else if message \<in> set (KNOWN_MESSAGES r) then (Returned, r, [], None)
                    else
                      (let r1 = r\<lparr>KNOWN_MESSAGES := KNOWN_MESSAGES r @ [message],
                                  latest_message := t\<rparr>;
                           fx1 = [WriteFile ''.messages'' (json_dump L (KNOWN_MESSAGES r1)),
                                  ServerLog (''[WebSocket] Received message: '' @ message)]
                       in (case py_getkey json_message ''message'' of
                             Inl err \<Rightarrow> (Raised err, r1, fx1, None)
                           | Inr (JStr text) \<Rightarrow>
                               (let learn =
                                      (case match_command text of
                                         Some command \<Rightarrow> command \<notin> set (KNOWN_COMMANDS r1)
                                       | None \<Rightarrow> False);
                                    r2 = (if learn
                                          then r1\<lparr>KNOWN_COMMANDS :=
                                                    KNOWN_COMMANDS r1 @ [the (match_command text)]\<rparr>
                                          else r1);
                                    fx2 = (if learn
                                           then [WriteFile ''commands.txt''
                                                   (py_join [CHR 0x0A] (KNOWN_COMMANDS r2))]
                                           else [])
                                in (case format_message L json_message of
                                      Inl err \<Rightarrow>
                                        (Returned, r2,
                                         fx1 @ fx2 @
                                         [ServerLog (''[WebSocket] Error formatting message: ''
                                                     @ exc_text L err)],
                                         None)
                                    | Inr formatted \<Rightarrow>
                                        (Returned, r2, fx1 @ fx2, Some formatted)))
                           | Inr _ \<Rightarrow> (Raised TypeError, r1, fx1, None))))))"

text \<open>
  The loop over the subscribers starts one thread per subscriber it reaches. The
  body of a thread, \<open>wrapper\<close>, calls the render hook of the subscriber that the loop
  variable \<open>callback\<close> names; when the hook raises, it logs and removes that subscriber
  from \<open>callbacks\<close>. \<open>raises n\<close> is the exception the hook of subscriber \<open>n\<close> raises, if
  it does.
\<close>

definition wrapper ::
  "lib \<Rightarrow> (nat \<Rightarrow> py_error option) \<Rightarrow> string \<Rightarrow> nat \<Rightarrow> relay \<times> effect list
   \<Rightarrow> relay \<times> effect list" where
  "wrapper L raises formatted callback rf =
     (case rf of
        (r, fx) \<Rightarrow>
          (case raises callback of
             None \<Rightarrow> (r, fx @ [McCallback callback formatted])
           | Some err \<Rightarrow>
               (r\<lparr>callbacks := remove1 callback (callbacks r)\<rparr>,
                fx @ [McCallback callback formatted,
                      ServerLog (''[WebSocket] Error in callback: '' @ exc_text L err)])))"

text \<open>
  The loop in the schedule in which every thread runs to its end as soon as it is
  started. The list iterator keeps an index \<open>i\<close> and stops when \<open>i\<close> has reached the
  current length of \<open>callbacks\<close>.
\<close>

function fanout_eager ::
  "lib \<Rightarrow> (nat \<Rightarrow> py_error option) \<Rightarrow> string \<Rightarrow> nat \<Rightarrow> relay \<times> effect list
   \<Rightarrow> relay \<times> effect list" where
  "fanout_eager L raises formatted i rf =
     (if i < length (callbacks (fst rf)) then
        fanout_eager L raises formatted (Suc i)
          (wrapper L raises formatted (callbacks (fst rf) ! i) rf)
      else rf)"
  by pat_completeness auto
termination
proof (relation "measure (\<lambda>(L, raises, formatted, i, rf). length (callbacks (fst rf)) - i)")
  show "wf (measure (\<lambda>(L, raises, formatted, i, rf). length (callbacks (fst rf)) - i))"
    by simp
next
  fix L :: lib and raises :: "nat \<Rightarrow> py_error option" and formatted :: string
    and i :: nat and rf :: "relay \<times> effect list"
  assume lt: "i < length (callbacks (fst rf))"
  have "length (callbacks (fst (wrapper L raises formatted (callbacks (fst rf) ! i) rf)))
          \<le> length (callbacks (fst rf))"
    by (cases rf; cases "raises (callbacks (fst rf) ! i)")
       (simp_all add: wrapper_def length_remove1)
  with lt show "((L, raises, formatted, Suc i,
                  wrapper L raises formatted (callbacks (fst rf) ! i) rf),
                 (L, raises, formatted, i, rf))
                \<in> measure (\<lambda>(L, raises, formatted, i, rf). length (callbacks (fst rf)) - i)"
    by simp
qed

declare fanout_eager.simps [simp del]

definition on_message ::
  "lib \<Rightarrow> (nat \<Rightarrow> py_error option) \<Rightarrow> string \<Rightarrow> relay \<Rightarrow> status \<times> relay \<times> effect list" where
  "on_message L raises message r =
     (case on_message_ingest L message r of
        (st, r1, fx1, None) \<Rightarrow> (st, r1, fx1)
      | (st, r1, fx1, Some formatted) \<Rightarrow>
          (case fanout_eager L raises formatted 0 (r1, []) of
             (r2, fx2) \<Rightarrow> (st, r2, fx1 @ fx2)))"

section \<open>Example inputs\<close>

text \<open>
  Concrete values at which the theorems below are evaluated: a relay environment with
  no players and no known commands, a library whose parser reads every raw message as
  the same record with time stamp 100, and a hook table in which the render hook of
  subscriber 1 raises (as \<open>mc_callback\<close> does while the session has no \<open>width\<close> yet).
\<close>

definition example_env :: env where
  "example_env =
     \<lparr>players = Inr [], known_commands = [], subscribed = True, peername = ''peer'',
      height = 24\<rparr>"

definition example_lib :: lib where
  "example_lib =
     \<lparr>json_loads =
        (\<lambda>m. Inr (JObj [(''timestampMillis'', JInt 100), (''level'', JStr ''INFO''),
                        (''message'', JStr ''hello'')])),
      json_dump = concat,
      format_time = (\<lambda>t. Inr ''12:00''),
      py_str = (\<lambda>v. case v of JStr x \<Rightarrow> x | _ \<Rightarrow> []),
      exc_text = (\<lambda>err. ''no attribute width'')\<rparr>"

definition example_hooks :: "nat \<Rightarrow> py_error option" where
  "example_hooks n = (if n = 1 then Some AttributeError else None)"

definition example_relay :: "int \<Rightarrow> nat list \<Rightarrow> string list \<Rightarrow> relay" where
  "example_relay latest subscribers stored =
     \<lparr>latest_message = latest, callbacks = subscribers, cached_players = None,
      players_last_updated = 0, KNOWN_MESSAGES = stored, KNOWN_COMMANDS = []\<rparr>"

section \<open>Properties\<close>

subsection \<open>Auxiliary facts\<close>

lemma add_history_returns:
  assumes "history s \<noteq> []"
  obtains s1 fx1 where "add_history cmd s = (Returned, s1, fx1)" and "buffer s1 = buffer s"
proof -
  obtain h hs where h: "history s = h # hs"
    using assms by (cases "history s") auto
  have "fst (add_history cmd s) = Returned
        \<and> buffer (fst (snd (add_history cmd s))) = buffer s"
    by (cases hs) (simp_all add: add_history_def py_getitem_def py_norm_index_def h Let_def)
  then show thesis
    using that [of "fst (snd (add_history cmd s))" "snd (snd (add_history cmd s))"]
    by (metis prod.collapse)
qed



lemma wrapper_frame:
  "KNOWN_MESSAGES (fst (wrapper L raises formatted c rf)) = KNOWN_MESSAGES (fst rf)"
  "latest_message (fst (wrapper L raises formatted c rf)) = latest_message (fst rf)"
  by (cases rf; cases "raises c"; simp add: wrapper_def)+

lemma fanout_eager_frame:
  "KNOWN_MESSAGES (fst (fanout_eager L raises formatted i rf)) = KNOWN_MESSAGES (fst rf)
   \<and> latest_message (fst (fanout_eager L raises formatted i rf)) = latest_message (fst rf)"
proof (induction L raises formatted i rf rule: fanout_eager.induct)
  case (1 L raises formatted i rf)
  show ?case
  proof (cases "i < length (callbacks (fst rf))")
    case True
    with "1.IH" show ?thesis
      by (subst (1 2) fanout_eager.simps) (simp add: wrapper_frame)
  next
    case False
    then show ?thesis
      by (subst (1 2) fanout_eager.simps) simp
  qed
qed

lemma on_message_store:
  "KNOWN_MESSAGES (fst (snd (on_message L raises message r)))
     = KNOWN_MESSAGES (fst (snd (on_message_ingest L message r)))
   \<and> latest_message (fst (snd (on_message L raises message r)))
     = latest_message (fst (snd (on_message_ingest L message r)))"
proof -
  obtain st r1 fx1 out where ing: "on_message_ingest L message r = (st, r1, fx1, out)"
    by (cases "on_message_ingest L message r") auto
  show ?thesis
  proof (cases out)
    case None
    with ing show ?thesis by (simp add: on_message_def)
  next
    case (Some formatted)
    obtain r2 fx2 where fo: "fanout_eager L raises formatted 0 (r1, []) = (r2, fx2)"
      by (cases "fanout_eager L raises formatted 0 (r1, [])") auto
    have "KNOWN_MESSAGES r2 = KNOWN_MESSAGES r1 \<and> latest_message r2 = latest_message r1"
      using fanout_eager_frame [of L raises formatted 0 "(r1, [])"] fo by simp
    with ing Some fo show ?thesis by (simp add: on_message_def)
  qed
qed

text \<open>
  The part of \<open>on_message\<close> before the loop either returns or raises with the relay as
  it was and no effect, or it has appended a raw message that was not yet stored.
\<close>

lemma ingest_store_cases:
  "on_message_ingest L message r = (fst (on_message_ingest L message r), r, [], None)
   \<or> (message \<notin> set (KNOWN_MESSAGES r)
      \<and> KNOWN_MESSAGES (fst (snd (on_message_ingest L message r))) = KNOWN_MESSAGES r @ [message])"
  by (auto simp: on_message_ingest_def Let_def split: sum.splits option.splits json.splits)

lemma suffix_selection_frame:
  assumes "suffix_selection e s = Inr (c, s')"
  shows "buffer s' = buffer s \<and> position s' = position s \<and> filter_str s' = filter_str s"
  using assms
  by (auto simp: suffix_selection_def Let_def split: sum.splits if_splits)

lemma suffix_frame:
  assumes "suffix e s = Inr (c, s')"
  shows "buffer s' = buffer s \<and> position s' = position s"
  using assms suffix_selection_frame
  by (fastforce simp: suffix_def split: sum.splits if_splits prod.splits)

lemma redraw_buffer_frame:
  assumes "redraw_buffer e s = (st, s', fx)"
  shows "buffer s' = buffer s \<and> position s' = position s"
  using assms suffix_frame
  by (fastforce simp: redraw_buffer_def Let_def split: sum.splits prod.splits)

lemma accept_completion_cursor:
  assumes "accept_completion e s = (st, s', fx)"
  shows "s' = s \<or> cursor_in_buffer s'"
proof (cases "suffix_selection e s")
  case (Inl err)
  with assms show ?thesis by (simp add: accept_completion_def)
next
  case (Inr cs)
  obtain c s1 where cs: "cs = (c, s1)" by (cases cs)
  define s4 where "s4 = s1\<lparr>buffer := py_list c, filter_str := concat (py_list c),
                              position := int (length (py_list c))\<rparr>"
  have "redraw_buffer e s4 = (st, s', fx)"
    using assms Inr cs by (simp add: accept_completion_def Let_def buffer_str_def s4_def)
  then have "buffer s' = buffer s4 \<and> position s' = position s4"
    by (rule redraw_buffer_frame)
  then show ?thesis by (simp add: cursor_in_buffer_def s4_def)
qed

lemma and_then_update_filter:
  assumes "and_then r (\<lambda>s1. (Returned, update_filter s1, [])) = (st, s', fx)"
  shows "buffer s' = buffer (fst (snd r)) \<and> position s' = position (fst (snd r))"
  using assms
  by (auto simp: and_then_def update_filter_def split: prod.splits status.splits)

lemma add_history_frame:
  assumes "add_history cmd s = (st, s', fx)"
  shows "buffer s' = buffer s \<and> position s' = position s"
  using assms
  by (auto simp: add_history_def Let_def split: sum.splits if_splits)

lemma close_frame:
  assumes "close e s = (st, s', fx)"
  shows "buffer s' = buffer s \<and> position s' = position s"
  using assms by (auto simp: close_def Let_def split: if_splits)

lemma dispatch_command_cursor:
  assumes "dispatch_command e s = (st, s', fx)"
  shows "(st = Returned \<or> concat (buffer s) \<noteq> ''reload confirm'')
         \<and> ((buffer s' = buffer s \<and> position s' = position s) \<or> cursor_in_buffer s')"
  using assms close_frame [of e s]
  by (auto simp: dispatch_command_def Let_def and_then_def cursor_in_buffer_def py_getitem_def
      py_norm_index_def py_strip_def py_isspace_def
      split: sum.splits if_splits prod.splits status.splits)

lemma send_command_cursor:
  assumes inv: "cursor_in_buffer s" and run: "send_command e s = (st, s', fx)"
  shows "cursor_in_buffer s'"
proof (cases "length (buffer s) = 0")
  case True
  with run inv show ?thesis by (simp add: send_command_def)
next
  case False
  obtain st1 s1 fx1 where ah: "add_history (concat (buffer s)) s = (st1, s1, fx1)"
    by (cases "add_history (concat (buffer s)) s") auto
  have f1: "buffer s1 = buffer s \<and> position s1 = position s"
    using ah by (rule add_history_frame)
  show ?thesis
  proof (cases st1)
    case (Raised err)
    with run False ah have "s' = s1"
      by (simp add: send_command_def and_then_def)
    with f1 inv show ?thesis by (simp add: cursor_in_buffer_def)
  next
    case Returned
    define s2 where "s2 = (if concat (buffer s1) = ''reload''
                           then s1\<lparr>buffer := py_list ''reload confirm''\<rparr> else s1)"
    obtain st3 s3 fx3 where d: "dispatch_command e s2 = (st3, s3, fx3)"
      by (cases "dispatch_command e s2") auto
    have dc: "(st3 = Returned \<or> concat (buffer s2) \<noteq> ''reload confirm'')
              \<and> ((buffer s3 = buffer s2 \<and> position s3 = position s2) \<or> cursor_in_buffer s3)"
      using d by (rule dispatch_command_cursor)
    show ?thesis
    proof (cases st3)
      case Returned
      with run False ah \<open>st1 = Returned\<close> d
      have "s' = s3\<lparr>buffer := [], position := 0, selected := 0, selected_suffix := 0\<rparr>"
        by (simp add: send_command_def and_then_def s2_def)
      then show ?thesis by (simp add: cursor_in_buffer_def)
    next
      case (Raised err)
      with run False ah \<open>st1 = Returned\<close> d have s': "s' = s3"
        by (simp add: send_command_def and_then_def s2_def)
      have "concat (buffer s2) \<noteq> ''reload confirm''"
        using dc Raised by simp
      then have "s2 = s1"
        by (auto simp: s2_def py_list_def split: if_splits)
      with dc f1 inv s' show ?thesis by (auto simp: cursor_in_buffer_def)
    qed
  qed
qed

lemma previous_command_cursor:
  assumes inv: "cursor_in_buffer s" and run: "previous_command e s = (st, s', fx)"
  shows "cursor_in_buffer s'"
  using assms
  by (auto simp: previous_command_def Let_def cursor_in_buffer_def
      split: sum.splits if_splits)

lemma next_command_cursor:
  assumes inv: "cursor_in_buffer s" and run: "next_command e s = (st, s', fx)"
  shows "cursor_in_buffer s'"
  using assms
  by (auto simp: next_command_def Let_def cursor_in_buffer_def
      split: sum.splits if_splits)

lemma py_insert_length: "length (py_insert xs i x) = Suc (length xs)"
proof -
  have "min (length xs) k + Suc (length xs - k) = Suc (length xs)" for k
    by arith
  then show ?thesis
    by (simp add: py_insert_def Let_def)
qed

lemma py_pop_length:
  assumes "py_pop xs i = Inr ys"
  shows "xs \<noteq> [] \<and> length ys = length xs - 1"
  using assms
  by (auto simp: py_pop_def Let_def py_norm_index_def split: if_splits)

lemma backspace_cursor:
  assumes inv: "cursor_in_buffer s" and pos: "0 < position s"
    and run: "backspace s = (st, s', fx)"
  shows "cursor_in_buffer s'"
proof (cases "py_pop (buffer s) (position s - 1)")
  case (Inl err)
  with run inv show ?thesis
    by (auto simp: backspace_def split: if_splits)
next
  case (Inr b)
  then have "length b = length (buffer s) - 1" and "buffer s \<noteq> []"
    using py_pop_length by blast+
  with run inv pos Inr show ?thesis
    by (auto simp: backspace_def cursor_in_buffer_def split: if_splits)
qed

lemma py_strip_keeps_first:
  assumes "\<not> py_isspace c"
  shows "\<exists>ys. py_strip (c # cs) = c # ys"
proof -
  have "\<exists>zs. dropWhile py_isspace (rev cs @ [c]) = zs @ [c]"
    using assms by (cases "\<forall>x \<in> set (rev cs). py_isspace x") (auto simp: dropWhile_append)
  then obtain zs where "dropWhile py_isspace (rev (c # cs)) = zs @ [c]"
    by auto
  then show ?thesis
    using assms by (simp add: py_strip_def)
qed

subsection \<open>Submitting a command\<close>

text \<open>
  C1, as the claim states it, fails. In a fresh session whose buffer holds \<open>reload\<close>,
  \<open>send_command\<close> does not leave \<open>reload confirm\<close> in the buffer, and it does send
  \<open>reload confirm\<close> upstream during that submit.
\<close>

theorem send_command_reload_is_forwarded:
  "buffer_str (fst (snd (send_command example_env
       \<lparr>buffer = [''r'', ''e'', ''l'', ''o'', ''a'', ''d''], history = [''''], position = 6,
        selected = 0, selected_suffix = 0, filter_str = ''reload'', closing = False\<rparr>)))
     \<noteq> ''reload confirm''
   \<and> WsSend ''reload confirm''
       \<in> set (snd (snd (send_command example_env
             \<lparr>buffer = [''r'', ''e'', ''l'', ''o'', ''a'', ''d''], history = [''''], position = 6,
              selected = 0, selected_suffix = 0, filter_str = ''reload'', closing = False\<rparr>)))"
  by (simp add: send_command_def dispatch_command_def add_history_def and_then_def
      py_getitem_def py_norm_index_def py_insert_def py_list_def py_strip_def py_isspace_def
      esc_def buffer_str_def Let_def)

text \<open>
  What a submit of \<open>reload\<close> comes to, in full: the result of \<open>add_history\<close>, then the
  dispatch of the rewritten buffer, then the reset.
\<close>

lemma add_history_sends_nothing: "sent_upstream (snd (snd (add_history cmd s))) = []"
  by (auto simp: add_history_def sent_upstream_def Let_def split: sum.splits)

lemma send_command_reload_result:
  assumes "concat (buffer s) = ''reload''" and "history s \<noteq> []"
  shows "send_command e s =
           (Returned,
            (fst (snd (add_history ''reload'' s)))
              \<lparr>buffer := [], position := 0, selected := 0, selected_suffix := 0\<rparr>,
            snd (snd (add_history ''reload'' s)) @
            [WsSend ''reload confirm'', ServerLog ''[*] Sent command: reload confirm'',
             ClientSend (esc # ''[2K'')])"
proof -
  obtain s1 fx1 where ah: "add_history ''reload'' s = (Returned, s1, fx1)"
    and b1: "buffer s1 = buffer s"
    using assms(2) by (rule add_history_returns)
  have ne: "buffer s \<noteq> []"
    using assms(1) by auto
  have d: "dispatch_command e (s1\<lparr>buffer := py_list ''reload confirm''\<rparr>) =
             (Returned, s1\<lparr>buffer := py_list ''reload confirm''\<rparr>,
              [WsSend ''reload confirm'', ServerLog ''[*] Sent command: reload confirm''])"
    by (simp add: dispatch_command_def py_list_def py_getitem_def py_norm_index_def
        py_strip_def py_isspace_def Let_def)
  show ?thesis
    using ne by (simp add: send_command_def and_then_def assms(1) ah b1 d)
qed

text \<open>
  C1, amended. When \<open>send_command\<close> runs with buffer content exactly \<open>reload\<close> (and a
  history list that is not empty, as it is in every session: it starts as \<open>[""]\<close> and
  is otherwise the result of a \<open>split\<close>), the buffer is rewritten to \<open>reload confirm\<close>
  and that rewritten line is forwarded upstream on the same submit: the call returns,
  what it has sent upstream is exactly the one command \<open>reload confirm\<close>, and it has
  logged it as a sent command. The rewritten line does not stay as the editable line:
  when the call returns the buffer is empty and the cursor and both selection indices
  are 0.
\<close>

theorem send_command_reload:
  assumes "concat (buffer s) = ''reload''" and "history s \<noteq> []"
  shows "fst (send_command e s) = Returned
         \<and> sent_upstream (snd (snd (send_command e s))) = [''reload confirm'']
         \<and> ServerLog ''[*] Sent command: reload confirm'' \<in> set (snd (snd (send_command e s)))
         \<and> buffer (fst (snd (send_command e s))) = []
         \<and> position (fst (snd (send_command e s))) = 0
         \<and> selected (fst (snd (send_command e s))) = 0
         \<and> selected_suffix (fst (snd (send_command e s))) = 0"
proof -
  have "sent_upstream (snd (snd (send_command e s))) =
          sent_upstream (snd (snd (add_history ''reload'' s))) @ [''reload confirm'']"
    unfolding send_command_reload_result [OF assms]
    by (simp add: sent_upstream_def)
  then have "sent_upstream (snd (snd (send_command e s))) = [''reload confirm'']"
    by (simp only: add_history_sends_nothing append_Nil)
  then show ?thesis
    by (simp add: send_command_reload_result [OF assms])
qed

theorem send_command_reload_witness:
  "concat (buffer \<lparr>buffer = [''r'', ''e'', ''l'', ''o'', ''a'', ''d''],
                    history = [''x'', ''reload'', []], position = 6, selected = 0,
                    selected_suffix = 0, filter_str = ''reload'', closing = False\<rparr>) = ''reload''
   \<and> history \<lparr>buffer = [''r'', ''e'', ''l'', ''o'', ''a'', ''d''],
               history = [''x'', ''reload'', []], position = 6, selected = 0,
               selected_suffix = 0, filter_str = ''reload'', closing = False\<rparr> \<noteq> []
   \<and> fst (send_command example_env
            \<lparr>buffer = [''r'', ''e'', ''l'', ''o'', ''a'', ''d''],
             history = [''x'', ''reload'', []], position = 6, selected = 0,
             selected_suffix = 0, filter_str = ''reload'', closing = False\<rparr>) = Returned
   \<and> sent_upstream (snd (snd (send_command example_env
            \<lparr>buffer = [''r'', ''e'', ''l'', ''o'', ''a'', ''d''],
             history = [''x'', ''reload'', []], position = 6, selected = 0,
             selected_suffix = 0, filter_str = ''reload'', closing = False\<rparr>)))
       = [''reload confirm'']
   \<and> buffer (fst (snd (send_command example_env
            \<lparr>buffer = [''r'', ''e'', ''l'', ''o'', ''a'', ''d''],
             history = [''x'', ''reload'', []], position = 6, selected = 0,
             selected_suffix = 0, filter_str = ''reload'', closing = False\<rparr>))) = []
   \<and> position (fst (snd (send_command example_env
            \<lparr>buffer = [''r'', ''e'', ''l'', ''o'', ''a'', ''d''],
             history = [''x'', ''reload'', []], position = 6, selected = 0,
             selected_suffix = 0, filter_str = ''reload'', closing = False\<rparr>))) = 0"
  using send_command_reload
    [of "\<lparr>buffer = [''r'', ''e'', ''l'', ''o'', ''a'', ''d''],
          history = [''x'', ''reload'', []], position = 6, selected = 0,
          selected_suffix = 0, filter_str = ''reload'', closing = False\<rparr>"
        example_env]
  by simp

text \<open>
  C10. Submitting with an empty buffer is a complete no-op: \<open>send_command\<close> returns at
  once with the session exactly as it was (buffer, cursor, history and both selection
  indices) and without any effect: nothing sent upstream, nothing written to the
  client, to the history file or to a log.
\<close>

theorem send_command_empty_buffer_noop:
  "length (buffer s) = 0 \<Longrightarrow> send_command e s = (Returned, s, [])"
  by (simp add: send_command_def)

theorem send_command_empty_buffer_noop_witness:
  "length (buffer \<lparr>buffer = [], history = [''say hi'', ''''], position = 0, selected = 1,
                    selected_suffix = 2, filter_str = '''', closing = False\<rparr>) = 0
   \<and> send_command example_env
         \<lparr>buffer = [], history = [''say hi'', ''''], position = 0, selected = 1,
          selected_suffix = 2, filter_str = '''', closing = False\<rparr>
       = (Returned,
          \<lparr>buffer = [], history = [''say hi'', ''''], position = 0, selected = 1,
           selected_suffix = 2, filter_str = '''', closing = False\<rparr>, [])"
  using send_command_empty_buffer_noop
    [of "\<lparr>buffer = [], history = [''say hi'', ''''], position = 0, selected = 1,
          selected_suffix = 2, filter_str = '''', closing = False\<rparr>"
        example_env]
  by simp

text \<open>
  X6 (beyond the claims; the broadcast branch of the dispatch). When the first key
  event of the buffer is \<open>!\<close> (and the history list is not empty), \<open>send_command\<close>
  passes the whole line to \<open>add_history\<close>, sends upstream \<open>/broadcast\<close>, a space and
  the buffer without its first element, logs that broadcast, and then empties the
  buffer, sets the cursor and both selection indices to 0 and clears the line.
\<close>

theorem send_command_broadcast:
  assumes "buffer s = ''!'' # rest" and "history s \<noteq> []"
  shows "send_command e s =
           (Returned,
            (fst (snd (add_history (concat (buffer s)) s)))
              \<lparr>buffer := [], position := 0, selected := 0, selected_suffix := 0\<rparr>,
            snd (snd (add_history (concat (buffer s)) s)) @
            [WsSend (''/broadcast '' @ concat rest),
             ServerLog (''[*] Sent broadcast: '' @ concat rest),
             ClientSend (esc # ''[2K'')])"
proof -
  have cb: "concat (buffer s) = CHR ''!'' # concat rest"
    by (simp add: assms(1))
  obtain s1 fx1 where ah: "add_history (CHR ''!'' # concat rest) s = (Returned, s1, fx1)"
    and b1: "buffer s1 = buffer s"
    using assms(2) by (rule add_history_returns)
  have sp: "\<not> py_isspace CHR ''!''"
    by (simp add: py_isspace_def)
  obtain ys where st: "py_strip (CHR ''!'' # concat rest) = CHR ''!'' # ys"
    using py_strip_keeps_first [OF sp] by blast
  have c1: "concat (buffer s1) = CHR ''!'' # concat rest"
    by (simp add: b1 cb)
  have dr: "concat (drop 1 (buffer s1)) = concat rest"
    by (simp add: b1 assms(1))
  have d: "dispatch_command e s1 =
             (Returned, s1,
              [WsSend (''/broadcast '' @ concat rest),
               ServerLog (''[*] Sent broadcast: '' @ concat rest)])"
    unfolding dispatch_command_def Let_def c1 st dr
    by (simp add: py_getitem_def py_norm_index_def)
  have "send_command e s =
          (Returned,
           s1\<lparr>buffer := [], position := 0, selected := 0, selected_suffix := 0\<rparr>,
           fx1 @ [WsSend (''/broadcast '' @ concat rest),
                  ServerLog (''[*] Sent broadcast: '' @ concat rest),
                  ClientSend (esc # ''[2K'')])"
    unfolding send_command_def cb
    by (simp add: assms(1) ah and_then_def c1 d)
  then show ?thesis
    using ah by (simp add: cb)
qed

theorem send_command_broadcast_witness:
  "buffer \<lparr>buffer = [''!'', ''h'', ''e'', ''l'', ''l'', ''o''], history = [[]], position = 6,
           selected = 0, selected_suffix = 0, filter_str = ''!hello'', closing = False\<rparr>
     = ''!'' # [''h'', ''e'', ''l'', ''l'', ''o'']
   \<and> send_command example_env
         \<lparr>buffer = [''!'', ''h'', ''e'', ''l'', ''l'', ''o''], history = [[]], position = 6,
          selected = 0, selected_suffix = 0, filter_str = ''!hello'', closing = False\<rparr>
       = (Returned,
          \<lparr>buffer = [], history = [''!hello'', []], position = 0, selected = 0,
           selected_suffix = 0, filter_str = ''!hello'', closing = False\<rparr>,
          [WriteFile ''history.txt'' [], WsSend ''/broadcast hello'',
           ServerLog ''[*] Sent broadcast: hello'', ClientSend (esc # ''[2K'')])"
  using send_command_broadcast
    [of "\<lparr>buffer = [''!'', ''h'', ''e'', ''l'', ''l'', ''o''], history = [[]], position = 6,
          selected = 0, selected_suffix = 0, filter_str = ''!hello'', closing = False\<rparr>"
        "[''h'', ''e'', ''l'', ''l'', ''o'']" example_env]
  by (simp add: add_history_def py_insert_def py_norm_index_def)

subsection \<open>History\<close>

text \<open>
  C8 (history has immediate-duplicate suppression). A session that has submitted
  \<open>a\<close> and then \<open>b\<close> holds the history \<open>[b, a, ""]\<close>. Submitting \<open>b\<close> again compares
  it with the entry at index 1, which is \<open>a\<close>, not with the most recent entry at
  index 0, and inserts \<open>b\<close> a second time.
\<close>

theorem add_history_repeats_most_recent:
  "add_history ''b''
     \<lparr>buffer = [''b''], history = [''b'', ''a'', ''''], position = 1, selected = 0,
      selected_suffix = 0, filter_str = ''b'', closing = False\<rparr>
   = (Returned,
      \<lparr>buffer = [''b''], history = [''b'', ''b'', ''a'', ''''], position = 1, selected = 0,
       selected_suffix = 0, filter_str = ''b'', closing = False\<rparr>,
      [WriteFile ''history.txt'' (''b'' @ [CHR 0x0A] @ ''a'' @ [CHR 0x0A])])"
  by (simp add: add_history_def py_getitem_def py_norm_index_def py_insert_def)

text \<open>
  X3 (beyond the claims; what \<open>add_history\<close> does in place of C8). On a history that is
  not empty, \<open>add_history\<close> returns; it puts the command in front unless the history has
  at least two entries and the entry at index 1 equals the command, and it writes the
  resulting history without its first entry to the history file.
\<close>

theorem add_history_behaviour:
  assumes "history s \<noteq> []"
  shows "add_history cmd s =
           (Returned,
            s\<lparr>history := (if length (history s) = 1 \<or> history s ! 1 \<noteq> cmd
                           then cmd # history s else history s)\<rparr>,
            [WriteFile ''history.txt''
               (py_join [CHR 0x0A]
                  (drop 1 (if length (history s) = 1 \<or> history s ! 1 \<noteq> cmd
                           then cmd # history s else history s)))])"
proof -
  obtain h hs where h: "history s = h # hs"
    using assms by (cases "history s") auto
  show ?thesis
    by (cases hs) (simp_all add: add_history_def py_getitem_def py_norm_index_def
        py_insert_def h Let_def)
qed

theorem add_history_behaviour_witness:
  "history \<lparr>buffer = [], history = [''x'', ''b'', ''''], position = 0, selected = 0,
            selected_suffix = 0, filter_str = '''', closing = False\<rparr> \<noteq> []
   \<and> add_history ''b''
       \<lparr>buffer = [], history = [''x'', ''b'', ''''], position = 0, selected = 0,
        selected_suffix = 0, filter_str = '''', closing = False\<rparr>
     = (Returned,
        \<lparr>buffer = [], history = [''x'', ''b'', ''''], position = 0, selected = 0,
         selected_suffix = 0, filter_str = '''', closing = False\<rparr>,
        [WriteFile ''history.txt'' (''b'' @ [CHR 0x0A])])"
  using add_history_behaviour
          [of "\<lparr>buffer = [], history = [''x'', ''b'', ''''], position = 0, selected = 0,
                selected_suffix = 0, filter_str = '''', closing = False\<rparr>" "''b''"]
  by simp

subsection \<open>Cursor and selection indices\<close>

text \<open>
  C6 (the cursor stays within the buffer). With the buffer \<open>ab\<close> and the cursor at 0
  (after typing \<open>a\<close>, \<open>b\<close> and two left arrows), the delete-backward key pops index
  \<open>-1\<close>, which is the last character \<open>b\<close> and not a character before the cursor, and
  moves the cursor to \<open>-1\<close>, outside the buffer.
\<close>

theorem backspace_at_line_start:
  "key_event example_env [CHR 0x7F]
     \<lparr>buffer = [''a'', ''b''], history = [''''], position = 0, selected = 0,
      selected_suffix = 0, filter_str = ''ab'', closing = False\<rparr>
   = (Returned,
      \<lparr>buffer = [''a''], history = [''''], position = - 1, selected = 0,
       selected_suffix = 0, filter_str = ''a'', closing = False\<rparr>, [])"
  by (simp add: key_event_def backspace_def py_pop_def py_norm_index_def and_then_def
      update_filter_def buffer_str_def)

text \<open>
  C9 (the selection indices are clamped before use). With \<open>s\<close> typed and one history
  entry that starts with \<open>s\<close>, the candidate list is \<open>[s, say hi]\<close>. One up arrow sets
  the suffix index to 1, the last index of that list. \<open>suffix_selection\<close> compares the
  index with the length of the whole list, 2, leaves it, and reads index 1 of the list
  without its first entry, which has one element: \<open>IndexError\<close>.
\<close>

theorem suffix_selection_index_error:
  "previous_command example_env
     \<lparr>buffer = [''s''], history = [''say hi'', ''''], position = 1, selected = 0,
      selected_suffix = 0, filter_str = ''s'', closing = False\<rparr>
   = (Returned,
      \<lparr>buffer = [''s''], history = [''say hi'', ''''], position = 1, selected = 0,
       selected_suffix = 1, filter_str = ''s'', closing = False\<rparr>, [])
   \<and> suffix_selection example_env
       \<lparr>buffer = [''s''], history = [''say hi'', ''''], position = 1, selected = 0,
        selected_suffix = 1, filter_str = ''s'', closing = False\<rparr>
     = Inl IndexError"
  by (simp add: previous_command_def suffix_selection_def filtered_history_def
      player_suggestions_def is_command_complete_def dedup_adjacent_def startswith_def
      py_getitem_def py_norm_index_def buffer_str_def py_strip_def py_isspace_def
      removeprefix_def example_env_def Let_def)

text \<open>
  X1 (beyond the claims; the part of C6 that holds). One turn of the input loop, the key
  handling followed by the redraw, keeps the cursor within \<open>[0, len(buffer)]\<close> for every
  key event except the delete-backward key pressed with the cursor at 0; this covers
  insertion, delete-forward, the four arrows, tab, return and interrupt, and also the
  turns that end with an exception.
\<close>

theorem input_handler_step_keeps_cursor:
  assumes inv: "cursor_in_buffer s"
    and key: "data \<noteq> [CHR 0x7F] \<or> 0 < position s"
    and run: "input_handler_step e data s = (st, s', fx)"
  shows "cursor_in_buffer s'"
proof -
  obtain st1 s1 fx1 where ke: "key_event e data s = (st1, s1, fx1)"
    by (cases "key_event e data s") auto
  have inv1: "cursor_in_buffer s1"
  proof -
    consider (ret) "data = [CHR 0x0D]" | (bs) "data = [CHR 0x7F]" | (intr) "data = [CHR 0x03]"
      | (up) "data = esc # ''[A''" | (down) "data = esc # ''[B''" | (left) "data = esc # ''[D''"
      | (right) "data = esc # ''[C''" | (tab) "data = [CHR 0x09]" | (del) "data = esc # ''[3~''"
      | (other) "data \<noteq> [CHR 0x0D]" "data \<noteq> [CHR 0x7F]" "data \<noteq> [CHR 0x03]"
          "data \<noteq> esc # ''[A''" "data \<noteq> esc # ''[B''" "data \<noteq> esc # ''[D''"
          "data \<noteq> esc # ''[C''" "data \<noteq> [CHR 0x09]" "data \<noteq> esc # ''[3~''"
      by blast
    then show ?thesis
    proof cases
      case ret
      obtain r where r: "send_command e s = r" by simp
      have "cursor_in_buffer (fst (snd r))"
        using send_command_cursor [OF inv, of e "fst r" "fst (snd r)" "snd (snd r)"] r by simp
      moreover have "buffer s1 = buffer (fst (snd r)) \<and> position s1 = position (fst (snd r))"
        using ke ret r and_then_update_filter [of r st1 s1 fx1]
        by (simp add: key_event_def)
      ultimately show ?thesis by (simp add: cursor_in_buffer_def)
    next
      case bs
      then have pos: "0 < position s" using key by simp
      obtain r where r: "backspace s = r" by simp
      have "cursor_in_buffer (fst (snd r))"
        using backspace_cursor [OF inv pos, of "fst r" "fst (snd r)" "snd (snd r)"] r by simp
      moreover have "buffer s1 = buffer (fst (snd r)) \<and> position s1 = position (fst (snd r))"
        using ke bs r and_then_update_filter [of r st1 s1 fx1]
        by (simp add: key_event_def)
      ultimately show ?thesis by (simp add: cursor_in_buffer_def)
    next
      case intr
      with ke inv close_frame [of e s] show ?thesis
        by (auto simp: key_event_def cursor_in_buffer_def and_then_def
            split: if_splits prod.splits status.splits)
    next
      case up
      with ke have "previous_command e s = (st1, s1, fx1)"
        by (simp add: key_event_def esc_def)
      with inv show ?thesis by (rule previous_command_cursor)
    next
      case down
      with ke have "next_command e s = (st1, s1, fx1)"
        by (simp add: key_event_def esc_def)
      with inv show ?thesis by (rule next_command_cursor)
    next
      case left
      with ke inv show ?thesis
        by (auto simp: key_event_def esc_def cursor_in_buffer_def split: if_splits)
    next
      case right
      show ?thesis
      proof (cases "position s = int (length (buffer s))")
        case True
        obtain r where r: "accept_completion e s = r" by simp
        have "fst (snd r) = s \<or> cursor_in_buffer (fst (snd r))"
          using accept_completion_cursor [of e s "fst r" "fst (snd r)" "snd (snd r)"] r by simp
        then have "cursor_in_buffer (fst (snd r))" using inv by auto
        moreover have "buffer s1 = buffer (fst (snd r)) \<and> position s1 = position (fst (snd r))"
          using ke right True r and_then_update_filter [of r st1 s1 fx1]
          by (simp add: key_event_def esc_def)
        ultimately show ?thesis by (simp add: cursor_in_buffer_def)
      next
        case False
        with ke right inv show ?thesis
          by (auto simp: key_event_def esc_def cursor_in_buffer_def split: if_splits)
      qed
    next
      case tab
      obtain r where r: "accept_completion e s = r" by simp
      have "fst (snd r) = s \<or> cursor_in_buffer (fst (snd r))"
        using accept_completion_cursor [of e s "fst r" "fst (snd r)" "snd (snd r)"] r by simp
      then have "cursor_in_buffer (fst (snd r))" using inv by auto
      moreover have "buffer s1 = buffer (fst (snd r)) \<and> position s1 = position (fst (snd r))"
        using ke tab r and_then_update_filter [of r st1 s1 fx1]
        by (simp add: key_event_def)
      ultimately show ?thesis by (simp add: cursor_in_buffer_def)
    next
      case del
      show ?thesis
      proof (cases "py_pop (buffer s) (position s)")
        case (Inl err)
        with ke del inv show ?thesis
          by (auto simp: key_event_def esc_def cursor_in_buffer_def update_filter_def
              split: if_splits)
      next
        case (Inr b)
        then have "length b = length (buffer s) - 1" and "buffer s \<noteq> []"
          using py_pop_length by blast+
        with ke del inv Inr show ?thesis
          by (auto simp: key_event_def esc_def cursor_in_buffer_def update_filter_def
              split: if_splits)
      qed
    next
      case other
      with ke have "s1 = update_filter
               (s\<lparr>buffer := py_insert (buffer s) (position s) data, position := position s + 1\<rparr>)"
        by (simp add: key_event_def)
      with inv show ?thesis
        by (simp add: update_filter_def cursor_in_buffer_def py_insert_length)
    qed
  qed
  show ?thesis
  proof (cases st1)
    case (Raised err)
    with run ke have "s' = s1" by (simp add: input_handler_step_def and_then_def)
    with inv1 show ?thesis by simp
  next
    case Returned
    obtain st2 s2 fx2 where rd: "redraw_buffer e s1 = (st2, s2, fx2)"
      by (cases "redraw_buffer e s1") auto
    with run ke Returned have "s' = s2" by (simp add: input_handler_step_def and_then_def)
    moreover have "buffer s2 = buffer s1 \<and> position s2 = position s1"
      using rd by (rule redraw_buffer_frame)
    ultimately show ?thesis using inv1 by (simp add: cursor_in_buffer_def)
  qed
qed

theorem input_handler_step_keeps_cursor_witness:
  "cursor_in_buffer
     \<lparr>buffer = [''a'', ''b''], history = [[]], position = 2, selected = 0,
      selected_suffix = 0, filter_str = ''ab'', closing = False\<rparr>
   \<and> 0 < position
         \<lparr>buffer = [''a'', ''b''], history = [[]], position = 2, selected = 0,
          selected_suffix = 0, filter_str = ''ab'', closing = False\<rparr>
   \<and> cursor_in_buffer
       (fst (snd (input_handler_step example_env [CHR 0x7F]
          \<lparr>buffer = [''a'', ''b''], history = [[]], position = 2, selected = 0,
           selected_suffix = 0, filter_str = ''ab'', closing = False\<rparr>)))"
proof -
  define s0 where "s0 = \<lparr>buffer = [''a'', ''b''], history = [[]], position = 2, selected = 0,
      selected_suffix = 0, filter_str = ''ab'', closing = False\<rparr>"
  define r where "r = input_handler_step example_env [CHR 0x7F] s0"
  have inv: "cursor_in_buffer s0"
    by (simp add: cursor_in_buffer_def s0_def)
  have key: "[CHR 0x7F] \<noteq> [CHR 0x7F] \<or> 0 < position s0"
    by (simp add: s0_def)
  have run: "input_handler_step example_env [CHR 0x7F] s0 = (fst r, fst (snd r), snd (snd r))"
    by (simp add: r_def)
  have "cursor_in_buffer (fst (snd r))"
    using input_handler_step_keeps_cursor [OF inv key run] .
  with inv show ?thesis
    by (simp add: s0_def r_def)
qed

text \<open>
  X2 (beyond the claims; the part of C6 that holds). With the cursor at a position from 1
  to \<open>len(buffer)\<close>, delete-backward removes exactly the element before the cursor and
  moves the cursor back by one; on an empty buffer it changes nothing.
\<close>

theorem backspace_within_buffer:
  "(0 < position s \<and> position s \<le> int (length (buffer s)) \<longrightarrow>
      backspace s =
        (Returned,
         s\<lparr>buffer := take (nat (position s - 1)) (buffer s) @ drop (nat (position s)) (buffer s),
           position := position s - 1\<rparr>, []))
   \<and> (buffer s = [] \<longrightarrow> backspace s = (Returned, s, []))"
proof (intro conjI impI)
  assume a: "0 < position s \<and> position s \<le> int (length (buffer s))"
  then have "Suc (nat (position s - 1)) = nat (position s)"
    by arith
  with a show "backspace s =
        (Returned,
         s\<lparr>buffer := take (nat (position s - 1)) (buffer s) @ drop (nat (position s)) (buffer s),
           position := position s - 1\<rparr>, [])"
    by (auto simp: backspace_def py_pop_def py_norm_index_def Let_def)
next
  assume "buffer s = []"
  then show "backspace s = (Returned, s, [])"
    by (simp add: backspace_def)
qed

theorem backspace_within_buffer_witness:
  "0 < position \<lparr>buffer = [''a'', ''b'', ''c''], history = [''''], position = 2, selected = 0,
                  selected_suffix = 0, filter_str = ''abc'', closing = False\<rparr>
   \<and> backspace \<lparr>buffer = [''a'', ''b'', ''c''], history = [''''], position = 2, selected = 0,
                 selected_suffix = 0, filter_str = ''abc'', closing = False\<rparr>
     = (Returned,
        \<lparr>buffer = [''a'', ''c''], history = [''''], position = 1, selected = 0,
         selected_suffix = 0, filter_str = ''abc'', closing = False\<rparr>, [])
   \<and> backspace \<lparr>buffer = [], history = [''''], position = 0, selected = 0,
                 selected_suffix = 0, filter_str = '''', closing = False\<rparr>
     = (Returned,
        \<lparr>buffer = [], history = [''''], position = 0, selected = 0,
         selected_suffix = 0, filter_str = '''', closing = False\<rparr>, [])"
  using backspace_within_buffer
          [of "\<lparr>buffer = [''a'', ''b'', ''c''], history = [''''], position = 2, selected = 0,
                selected_suffix = 0, filter_str = ''abc'', closing = False\<rparr>"]
        backspace_within_buffer
          [of "\<lparr>buffer = [], history = [''''], position = 0, selected = 0,
                selected_suffix = 0, filter_str = '''', closing = False\<rparr>"]
  by simp

text \<open>
  X4 (beyond the claims; the part of C9 that holds). The accessor \<open>selection\<close> never
  indexes out of bounds: for every index that is not negative it returns an entry of the
  candidate list, after resetting an index beyond the list to 0.
\<close>

theorem selection_in_range:
  assumes "0 \<le> selected s" and "filtered_history e s = Inr fh"
  shows "\<exists>c s'. selection e s = Inr (c, s') \<and> c \<in> set fh
                \<and> (s' = s \<or> s' = s\<lparr>selected := 0\<rparr>)"
proof -
  have ne: "fh \<noteq> []"
    using assms(2) by (auto simp: filtered_history_def split: sum.splits)
  show ?thesis
  proof (cases "selected s \<ge> int (length fh)")
    case True
    with ne assms(2) show ?thesis
      by (cases fh) (auto simp: selection_def py_getitem_def py_norm_index_def Let_def)
  next
    case False
    with ne assms show ?thesis
      by (auto simp: selection_def py_getitem_def py_norm_index_def Let_def)
  qed
qed

theorem selection_in_range_witness:
  "(0::int) \<le> selected \<lparr>buffer = [], history = [''say hi'', ''''], position = 0, selected = 5,
                          selected_suffix = 0, filter_str = '''', closing = False\<rparr>
   \<and> filtered_history example_env
       \<lparr>buffer = [], history = [''say hi'', ''''], position = 0, selected = 5,
        selected_suffix = 0, filter_str = '''', closing = False\<rparr>
     = Inr ['''', ''say hi'', '''']
   \<and> selection example_env
       \<lparr>buffer = [], history = [''say hi'', ''''], position = 0, selected = 5,
        selected_suffix = 0, filter_str = '''', closing = False\<rparr>
     = Inr ('''',
            \<lparr>buffer = [], history = [''say hi'', ''''], position = 0, selected = 0,
             selected_suffix = 0, filter_str = '''', closing = False\<rparr>)"
proof -
  have fh: "filtered_history example_env
       \<lparr>buffer = [], history = [''say hi'', ''''], position = 0, selected = 5,
        selected_suffix = 0, filter_str = '''', closing = False\<rparr>
     = Inr ['''', ''say hi'', '''']"
    by (simp add: filtered_history_def player_suggestions_def dedup_adjacent_def
        startswith_def example_env_def Let_def)
  have sel: "(0::int) \<le> selected \<lparr>buffer = [], history = [''say hi'', ''''], position = 0,
                 selected = 5, selected_suffix = 0, filter_str = '''', closing = False\<rparr>"
    by simp
  show ?thesis
    using selection_in_range [OF sel fh] fh
    by (auto simp: selection_def py_getitem_def py_norm_index_def Let_def)
qed

subsection \<open>Completion candidates\<close>




text \<open>
  X5 (beyond the claims; when the condition of C7 fails). \<open>filtered_history\<close> raises
  exactly when the filter is not empty, does not start with a space (its first word is
  not empty) and the read of \<open>self.ws.players\<close> raises; it then raises that exception.
  In every other case it returns a list.
\<close>

theorem filtered_history_raises_iff:
  "filtered_history e s = Inl err \<longleftrightarrow>
     (filter_str s \<noteq> [] \<and> hd (py_split CHR '' '' (filter_str s)) \<noteq> []
      \<and> players e = Inl err)"
  by (auto simp: filtered_history_def player_suggestions_def Let_def
      split: sum.splits if_splits)

theorem filtered_history_raises_iff_witness:
  "filtered_history
     \<lparr>players = Inl KeyError, known_commands = [''say''], subscribed = True,
      peername = ''peer'', height = 24\<rparr>
     \<lparr>buffer = [''s'', ''a'', ''y'', '' '', ''s''], history = [[]], position = 5, selected = 0,
      selected_suffix = 0, filter_str = ''say s'', closing = False\<rparr>
   = Inl KeyError"
  using filtered_history_raises_iff
    [of "\<lparr>players = Inl KeyError, known_commands = [''say''], subscribed = True,
          peername = ''peer'', height = 24\<rparr>"
        "\<lparr>buffer = [''s'', ''a'', ''y'', '' '', ''s''], history = [[]], position = 5,
          selected = 0, selected_suffix = 0, filter_str = ''say s'', closing = False\<rparr>"
        KeyError]
  by simp

subsection \<open>The roster\<close>

text \<open>
  C5, as the claim states it, fails. With the roster \<open>[Steve]\<close> cached 50 seconds ago, a
  call whose query fails returns the empty list, not the cached roster.
\<close>

theorem get_online_players_failure_drops_cache:
  "fst (get_online_players 100 (RequestFailed ''timed out'')
          \<lparr>latest_message = 0, callbacks = [],
           cached_players = Some [JObj [(''displayName'', JStr ''Steve'')]],
           players_last_updated = 50, KNOWN_MESSAGES = [], KNOWN_COMMANDS = []\<rparr>)
     = Inr []
   \<and> fst (get_online_players 100 (RequestFailed ''timed out'')
          \<lparr>latest_message = 0, callbacks = [],
           cached_players = Some [JObj [(''displayName'', JStr ''Steve'')]],
           players_last_updated = 50, KNOWN_MESSAGES = [], KNOWN_COMMANDS = []\<rparr>)
     \<noteq> Inr [JObj [(''displayName'', JStr ''Steve'')]]"
  by (simp add: get_online_players_def)

text \<open>
  C5, amended. For every call of \<open>get_online_players\<close> that queries (the cache is at
  least 10 seconds old) and whose query fails with a transport error, the call logs the
  error, returns the empty list whatever roster is cached, leaves the cached roster in
  place, records the time of the attempt, and returns without raising.
\<close>

theorem get_online_players_failure:
  "\<not> now - players_last_updated r < 10 \<Longrightarrow>
   get_online_players now (RequestFailed msg) r =
     (Inr [], r\<lparr>players_last_updated := now\<rparr>,
      [HttpGet, ServerLog (''Error getting online players: '' @ msg)])"
  by (simp add: get_online_players_def)

theorem get_online_players_failure_witness:
  "\<not> (100::real) - players_last_updated
          \<lparr>latest_message = 0, callbacks = [],
           cached_players = Some [JObj [(''displayName'', JStr ''Steve'')]],
           players_last_updated = 50, KNOWN_MESSAGES = [], KNOWN_COMMANDS = []\<rparr> < 10
   \<and> get_online_players 100 (RequestFailed ''timed out'')
         \<lparr>latest_message = 0, callbacks = [],
          cached_players = Some [JObj [(''displayName'', JStr ''Steve'')]],
          players_last_updated = 50, KNOWN_MESSAGES = [], KNOWN_COMMANDS = []\<rparr>
       = (Inr [],
          \<lparr>latest_message = 0, callbacks = [],
           cached_players = Some [JObj [(''displayName'', JStr ''Steve'')]],
           players_last_updated = 100, KNOWN_MESSAGES = [], KNOWN_COMMANDS = []\<rparr>,
          [HttpGet, ServerLog ''Error getting online players: timed out''])"
  using get_online_players_failure
    [of 100 "\<lparr>latest_message = 0, callbacks = [],
               cached_players = Some [JObj [(''displayName'', JStr ''Steve'')]],
               players_last_updated = 50, KNOWN_MESSAGES = [], KNOWN_COMMANDS = []\<rparr>"
        "''timed out''"]
  by simp

subsection \<open>Ingestion and fan-out\<close>

text \<open>
  C2. Ingestion is idempotent on raw messages. For every relay state: a raw message
  that is already stored leaves the stored list unchanged; a second \<open>on_message\<close> with
  the same raw message never changes the stored list; and when the first call stored a
  message that was absent before, the list holds exactly one copy of it after the
  second call.
\<close>

theorem on_message_idempotent:
  "(message \<in> set (KNOWN_MESSAGES r) \<longrightarrow>
      KNOWN_MESSAGES (fst (snd (on_message L raises message r))) = KNOWN_MESSAGES r)
   \<and> KNOWN_MESSAGES
        (fst (snd (on_message L raises message (fst (snd (on_message L raises message r))))))
      = KNOWN_MESSAGES (fst (snd (on_message L raises message r)))
   \<and> (message \<notin> set (KNOWN_MESSAGES r) \<longrightarrow>
        message \<in> set (KNOWN_MESSAGES (fst (snd (on_message L raises message r)))) \<longrightarrow>
        count_list
          (KNOWN_MESSAGES
             (fst (snd (on_message L raises message (fst (snd (on_message L raises message r)))))))
          message = 1)"
proof -
  have present: "KNOWN_MESSAGES (fst (snd (on_message L raises message q))) = KNOWN_MESSAGES q"
    if "message \<in> set (KNOWN_MESSAGES q)" for q
  proof -
    have "on_message_ingest L message q = (fst (on_message_ingest L message q), q, [], None)"
      using that ingest_store_cases [of L message q] by auto
    then have "KNOWN_MESSAGES (fst (snd (on_message_ingest L message q))) = KNOWN_MESSAGES q"
      by (metis fst_conv snd_conv)
    then show ?thesis by (simp add: on_message_store)
  qed
  define r1 where "r1 = fst (snd (on_message L raises message r))"
  have r1_store: "KNOWN_MESSAGES r1 = KNOWN_MESSAGES (fst (snd (on_message_ingest L message r)))"
    by (simp add: r1_def on_message_store)
  consider
      (dropped) "on_message_ingest L message r = (fst (on_message_ingest L message r), r, [], None)"
    | (stored) "message \<notin> set (KNOWN_MESSAGES r)"
               "KNOWN_MESSAGES (fst (snd (on_message_ingest L message r)))
                  = KNOWN_MESSAGES r @ [message]"
    using ingest_store_cases [of L message r] by blast
  then have both:
    "KNOWN_MESSAGES (fst (snd (on_message L raises message r1))) = KNOWN_MESSAGES r1
     \<and> (message \<notin> set (KNOWN_MESSAGES r) \<longrightarrow> message \<in> set (KNOWN_MESSAGES r1) \<longrightarrow>
          count_list (KNOWN_MESSAGES r1) message = 1)"
  proof cases
    case dropped
    then have "on_message L raises message r = (fst (on_message_ingest L message r), r, [])"
      by (metis (no_types, lifting) on_message_def case_prod_conv option.simps(4))
    then have same: "r1 = r" by (simp add: r1_def)
    have "KNOWN_MESSAGES (fst (snd (on_message_ingest L message r))) = KNOWN_MESSAGES r"
      using dropped by (metis fst_conv snd_conv)
    then show ?thesis
      by (simp add: same on_message_store)
  next
    case stored
    then have km: "KNOWN_MESSAGES r1 = KNOWN_MESSAGES r @ [message]"
      by (simp add: r1_store)
    then have "KNOWN_MESSAGES (fst (snd (on_message L raises message r1))) = KNOWN_MESSAGES r1"
      by (intro present) simp
    then show ?thesis
      using stored(1) by (simp add: km count_list_0_iff)
  qed
  show ?thesis
    using present [of r] both by (simp add: r1_def)
qed

theorem on_message_idempotent_witness:
  "''m1'' \<in> set (KNOWN_MESSAGES (example_relay 100 [2] [''m1'']))
   \<and> KNOWN_MESSAGES
       (fst (snd (on_message example_lib example_hooks ''m1'' (example_relay 100 [2] [''m1'']))))
     = [''m1'']
   \<and> ''m1'' \<notin> set (KNOWN_MESSAGES (example_relay 0 [2] []))
   \<and> ''m1'' \<in> set (KNOWN_MESSAGES
                     (fst (snd (on_message example_lib example_hooks ''m1''
                                  (example_relay 0 [2] [])))))
   \<and> count_list
       (KNOWN_MESSAGES
          (fst (snd (on_message example_lib example_hooks ''m1''
             (fst (snd (on_message example_lib example_hooks ''m1'' (example_relay 0 [2] []))))))))
       ''m1'' = 1"
proof -
  have stored: "KNOWN_MESSAGES
                  (fst (snd (on_message example_lib example_hooks ''m1'' (example_relay 0 [2] []))))
                = [''m1'']"
    by (simp add: on_message_store on_message_ingest_def example_lib_def example_relay_def
        py_getkey_def json_num_def match_command_def format_message_def Let_def)
  show ?thesis
    using on_message_idempotent
            [of "''m1''" "example_relay 100 [2] [''m1'']" example_lib example_hooks]
          on_message_idempotent
            [of "''m1''" "example_relay 0 [2] []" example_lib example_hooks]
          stored
    by (simp add: example_relay_def)
qed

text \<open>
  C3. For a raw message whose \<open>timestampMillis\<close> is a number \<open>t\<close>: when \<open>t\<close> is strictly
  less than the high-water mark \<open>latest_message\<close>, \<open>on_message\<close> returns with the relay
  unchanged and without any effect, so nothing is stored and no render hook is called;
  when the message is accepted (not stale and not yet stored), it is stored and \<open>t\<close>
  becomes the new high-water mark.
\<close>

theorem on_message_monotone:
  assumes "json_loads L message = Inr json_message"
    and "py_getkey json_message ''timestampMillis'' = Inr tv"
    and "json_num tv = Some t"
  shows "(t < latest_message r \<longrightarrow> on_message L raises message r = (Returned, r, []))
         \<and> (\<not> t < latest_message r \<and> message \<notin> set (KNOWN_MESSAGES r) \<longrightarrow>
              KNOWN_MESSAGES (fst (snd (on_message L raises message r)))
                = KNOWN_MESSAGES r @ [message]
              \<and> latest_message (fst (snd (on_message L raises message r))) = t)"
proof (intro conjI impI)
  assume "t < latest_message r"
  then have "on_message_ingest L message r = (Returned, r, [], None)"
    using assms by (simp add: on_message_ingest_def)
  then show "on_message L raises message r = (Returned, r, [])"
    by (simp add: on_message_def)
next
  assume acc: "\<not> t < latest_message r \<and> message \<notin> set (KNOWN_MESSAGES r)"
  have "KNOWN_MESSAGES (fst (snd (on_message_ingest L message r))) = KNOWN_MESSAGES r @ [message]
        \<and> latest_message (fst (snd (on_message_ingest L message r))) = t"
    using assms acc
    by (auto simp: on_message_ingest_def Let_def split: sum.splits json.splits)
  then show "KNOWN_MESSAGES (fst (snd (on_message L raises message r)))
               = KNOWN_MESSAGES r @ [message]"
    and "latest_message (fst (snd (on_message L raises message r))) = t"
    by (simp_all add: on_message_store)
qed

theorem on_message_monotone_witness:
  "(100::int) < latest_message (example_relay 250 [2] [])
   \<and> on_message example_lib example_hooks ''m1'' (example_relay 250 [2] [])
       = (Returned, example_relay 250 [2] [], [])
   \<and> \<not> (100::int) < latest_message (example_relay 40 [2] [''m0''])
   \<and> ''m1'' \<notin> set (KNOWN_MESSAGES (example_relay 40 [2] [''m0'']))
   \<and> KNOWN_MESSAGES
       (fst (snd (on_message example_lib example_hooks ''m1'' (example_relay 40 [2] [''m0'']))))
     = [''m0'', ''m1'']
   \<and> latest_message
       (fst (snd (on_message example_lib example_hooks ''m1'' (example_relay 40 [2] [''m0'']))))
     = 100"
proof -
  have h1: "json_loads example_lib ''m1''
              = Inr (JObj [(''timestampMillis'', JInt 100), (''level'', JStr ''INFO''),
                           (''message'', JStr ''hello'')])"
    by (simp add: example_lib_def)
  have h2: "py_getkey (JObj [(''timestampMillis'', JInt 100), (''level'', JStr ''INFO''),
                             (''message'', JStr ''hello'')]) ''timestampMillis''
              = Inr (JInt 100)"
    by (simp add: py_getkey_def)
  have h3: "json_num (JInt 100) = Some 100"
    by (simp add: json_num_def)
  show ?thesis
    using on_message_monotone [OF h1 h2 h3, of "example_relay 250 [2] []" example_hooks]
          on_message_monotone [OF h1 h2 h3, of "example_relay 40 [2] [''m0'']" example_hooks]
    by (simp add: example_relay_def)
qed

text \<open>
  C4 (fan-out isolation). Subscribers 1 and 2 are registered in this order and the
  render hook of subscriber 1 raises. In the schedule in which each thread runs as soon
  as it is started, the first thread removes subscriber 1 from \<open>callbacks\<close> while the
  loop iterates over that same list; the list is then \<open>[2]\<close>, the iterator is at index
  1, and the loop ends: the hook of subscriber 2 is never called for this message.
\<close>

theorem fan_out_skips_next_subscriber:
  "on_message example_lib example_hooks ''m1'' (example_relay 0 [1, 2] [])
   = (Returned,
      \<lparr>latest_message = 100, callbacks = [2], cached_players = None,
       players_last_updated = 0, KNOWN_MESSAGES = [''m1''], KNOWN_COMMANDS = []\<rparr>,
      [WriteFile ''.messages'' ''m1'', ServerLog ''[WebSocket] Received message: m1'',
       McCallback 1 ''12:00 INFO : hello'',
       ServerLog ''[WebSocket] Error in callback: no attribute width''])"
  by (simp add: on_message_def on_message_ingest_def py_getkey_def json_num_def
      match_command_def format_message_def fanout_eager.simps wrapper_def Let_def
      example_lib_def example_hooks_def example_relay_def)

subsection \<open>Learning command names\<close>

text \<open>
  X7 (beyond the claims; what the pattern of \<open>on_message\<close> extracts: a slash at the
  start, a run of characters that are not white space, a colon). Whenever the pattern
  matches a message text, the extracted command name is not empty, contains no white
  space, and the text starts with a slash, the name and a colon.
\<close>

theorem match_command_sound:
  assumes "match_command line = Some command"
  shows "command \<noteq> [] \<and> (\<forall>x \<in> set command. \<not> py_isspace x)
         \<and> startswith line (''/'' @ command @ '':'')"
proof -
  obtain rest where t: "line = CHR ''/'' # rest"
    using assms by (cases line) (auto simp: match_command_def split: if_splits)
  define run where "run = takeWhile (\<lambda>x. \<not> py_isspace x) rest"
  define ks where "ks = filter (\<lambda>k. run ! k = CHR '':'') [1 ..< length run]"
  have ks: "ks \<noteq> []" and c: "command = take (last ks) run"
    using assms by (auto simp: match_command_def t Let_def run_def ks_def split: if_splits)
  have "last ks \<in> set ks"
    using ks by simp
  then have k: "1 \<le> last ks" "last ks < length run" "run ! last ks = CHR '':''"
    by (auto simp: ks_def)
  define n where "n = length run"
  have pre: "run = take n rest"
    unfolding n_def run_def by (rule takeWhile_eq_take)
  have kn: "Suc (last ks) \<le> n"
    using k(2) by (simp add: n_def)
  have "take (Suc (last ks)) (take n rest) = take (Suc (last ks)) rest"
    using kn by (simp add: min_absorb1)
  then have tr: "take (Suc (last ks)) rest = take (Suc (last ks)) run"
    using pre by simp
  have "take (Suc (last ks)) run = take (last ks) run @ [run ! last ks]"
    using k(2) by (rule take_Suc_conv_app_nth)
  with tr c k(3) have "take (Suc (last ks)) rest = command @ '':''"
    by simp
  moreover have "length command = last ks"
    using c k(2) by simp
  ultimately have "startswith line (''/'' @ command @ '':'')"
    by (simp add: startswith_def t)
  moreover have "command \<noteq> []"
    using c k by auto
  moreover have "\<forall>x \<in> set command. \<not> py_isspace x"
  proof
    fix x assume "x \<in> set command"
    then have "x \<in> set run" using c by (auto dest: in_set_takeD)
    then show "\<not> py_isspace x" unfolding run_def by (auto dest: set_takeWhileD)
  qed
  ultimately show ?thesis by simp
qed


theorem match_command_sound_witness:
  "match_command ''/ban: player banned'' = Some ''ban''
   \<and> ''ban'' \<noteq> [] \<and> startswith ''/ban: player banned'' (''/'' @ ''ban'' @ '':'')"
proof -
  have m: "match_command ''/ban: player banned'' = Some ''ban''"
    by code_simp
  show ?thesis
    using match_command_sound [OF m] m by simp
qed

end
